theory Spec2Isabelle
  imports Complex_Main "HOL-Library.List_Lexorder" "HOL-Library.Char_ord" "HOL-Library.Multiset"
begin

section \<open>Data model (types/expense.ts, lib/db.ts, lib/expenses-sqlite.ts)\<close>

text \<open>
  Timestamps are the ISO-8601 texts that \<^verbatim>\<open>new Date().toISOString()\<close> yields; SQLite
  compares them bytewise, which is the lexicographic order on \<open>string\<close>. Every reading of
  the clock is an input of the operation that reads it. Identifiers are texts too; the
  UUID that \<^verbatim>\<open>generateUUID\<close> draws is an input of \<open>addExpense\<close>.

  Amounts are the numbers that \<^verbatim>\<open>parseFloat\<close> yields; the conversion between the text of
  the form and the number is outside the model, so the form data of the model carries the
  number. Likewise a form date is carried as its \<^verbatim>\<open>toISOString\<close> text.
\<close>

text \<open>\<^verbatim>\<open>interface Expense\<close>: a row of the remote table.\<close>

record expense =
  id_e :: string
  user_id :: string
  amount :: real
  category :: string
  date_e :: string
  notes_e :: "string option"
  receipt_url :: "string option"
  created_at :: string
  updated_at :: string

text \<open>\<^verbatim>\<open>interface LocalExpense extends Expense\<close>: a row of the local table \<open>expenses\<close>.\<close>

record local_expense = expense +
  synced :: int
  sync_error :: "string option"
  last_sync_at :: "string option"

text \<open>
  \<^verbatim>\<open>interface ExpenseFormData\<close> and \<^verbatim>\<open>Partial<ExpenseFormData>\<close>. In the partial form
  \<open>None\<close> is \<^verbatim>\<open>undefined\<close> (the field is not provided); the push phase provides
  \<open>receipt_url\<close> as the column value, which may be NULL (\<open>Some None\<close>).
\<close>

record expense_form_data =
  f_amount :: real
  f_category :: string
  f_date :: string
  f_notes :: string
  f_receipt_url :: "string option"

record partial_form_data =
  p_amount :: "real option"
  p_category :: "string option"
  p_date :: "string option"
  p_notes :: "string option"
  p_receipt_url :: "string option option"

datatype operation = Create | Update | Delete

text \<open>
  The \<open>data\<close> column holds \<^verbatim>\<open>JSON.stringify\<close> of the new row (create), of the partial
  update (update), or NULL (delete); the model keeps the value that was serialised.
\<close>

datatype payload = RowData local_expense | UpdateData partial_form_data

text \<open>A row of the table \<open>sync_queue\<close>; \<open>id_q\<close> is the AUTOINCREMENT primary key.\<close>

record queue_item =
  id_q :: nat
  expense_id :: string
  operation_q :: operation
  data_q :: "payload option"
  created_at_q :: string
  retry_count :: nat

text \<open>
  The database: both tables in rowid order, and the largest rowid that \<open>sync_queue\<close>
  ever held (SQLite's \<open>sqlite_sequence\<close> entry, which AUTOINCREMENT reads).
\<close>

record database =
  expenses :: "local_expense list"
  sync_queue :: "queue_item list"
  queue_seq :: nat

definition init_db :: database where
  "init_db = \<lparr>expenses = [], sync_queue = [], queue_seq = 0\<rparr>"

text \<open>The \<open>{ data, error }\<close> objects the store's functions return.\<close>

datatype 'a result = Result (data_r: "'a option") (error_r: "string option")

section \<open>Local store (lib/expenses-sqlite.ts)\<close>

text \<open>
  The functions of the store are modelled in the runs in which no SQLite statement throws
  for a reason of the device (a constraint that fails is modelled); \<open>deleteExpense\<close>,
  whose two statements are ordered for the sake of such a failure, takes the failures as
  arguments.
\<close>

text \<open>JavaScript's \<^verbatim>\<open>s || null\<close> on an optional text: the empty text is falsy.\<close>

definition or_null :: "string option \<Rightarrow> string option" where
  "or_null s = (case s of None \<Rightarrow> None | Some t \<Rightarrow> (if t = [] then None else Some t))"

text \<open>\<^verbatim>\<open>SELECT * FROM expenses WHERE id = ?\<close> (first row).\<close>

definition select_expense :: "string \<Rightarrow> database \<Rightarrow> local_expense option" where
  "select_expense i db = find (\<lambda>r. id_e r = i) (expenses db)"

definition getExpenseById :: "string \<Rightarrow> database \<Rightarrow> local_expense result" where
  "getExpenseById i db = Result (select_expense i db) None"

text \<open>
  \<open>addToSyncQueue\<close>: nothing is inserted when a row with the same \<open>expense_id\<close> and
  \<open>operation\<close> is in the queue already.
\<close>

definition addToSyncQueue ::
  "string \<Rightarrow> operation \<Rightarrow> payload option \<Rightarrow> string \<Rightarrow> database \<Rightarrow> database" where
  "addToSyncQueue expenseId op dat now db =
     (case find (\<lambda>q. expense_id q = expenseId \<and> operation_q q = op) (sync_queue db) of
        Some existing \<Rightarrow> db
      | None \<Rightarrow>
          db\<lparr>sync_queue := sync_queue db @
                 [\<lparr>id_q = Suc (queue_seq db), expense_id = expenseId, operation_q = op,
                   data_q = dat, created_at_q = now, retry_count = 0\<rparr>],
             queue_seq := Suc (queue_seq db)\<rparr>)"

text \<open>
  \<open>addExpense\<close>: \<open>uuid\<close> is the identifier drawn, \<open>now\<close> the clock at the insertion
  and \<open>qnow\<close> the clock inside \<open>addToSyncQueue\<close>. The INSERT throws when the primary
  key is taken; the \<^verbatim>\<open>catch\<close> turns that into an error result and nothing is enqueued.
\<close>

definition addExpense ::
  "expense_form_data \<Rightarrow> string \<Rightarrow> string \<Rightarrow> string \<Rightarrow> string \<Rightarrow> database
     \<Rightarrow> local_expense result \<times> database" where
  "addExpense expense userId uuid now qnow db =
     (let newExpense = \<lparr>id_e = uuid, user_id = userId, amount = f_amount expense,
                          category = f_category expense, date_e = f_date expense,
                          notes_e = or_null (Some (f_notes expense)),
                          receipt_url = or_null (f_receipt_url expense),
                          created_at = now, updated_at = now,
                          synced = 0, sync_error = None, last_sync_at = None\<rparr>
      in if select_expense uuid db \<noteq> None
         then (Result None (Some ''UNIQUE constraint failed: expenses.id''), db)
         else (Result (Some newExpense) None,
               addToSyncQueue uuid Create (Some (RowData newExpense)) qnow
                 (db\<lparr>expenses := expenses db @ [newExpense]\<rparr>)))"

text \<open>The dynamic \<^verbatim>\<open>UPDATE expenses SET ... WHERE id = ?\<close> of \<open>updateExpense\<close> on one row.\<close>

definition apply_updates :: "partial_form_data \<Rightarrow> string \<Rightarrow> local_expense \<Rightarrow> local_expense" where
  "apply_updates updates now r =
     r\<lparr>amount := (case p_amount updates of None \<Rightarrow> amount r | Some a \<Rightarrow> a),
       category := (case p_category updates of None \<Rightarrow> category r | Some c \<Rightarrow> c),
       date_e := (case p_date updates of None \<Rightarrow> date_e r | Some d \<Rightarrow> d),
       notes_e := (case p_notes updates of None \<Rightarrow> notes_e r | Some n \<Rightarrow> or_null (Some n)),
       receipt_url := (case p_receipt_url updates of None \<Rightarrow> receipt_url r
                       | Some u \<Rightarrow> or_null u),
       updated_at := now, synced := 0\<rparr>"

text \<open>\<open>updateFields.length === 2\<close>: none of the five fields was provided.\<close>

definition no_fields :: "partial_form_data \<Rightarrow> bool" where
  "no_fields updates \<longleftrightarrow>
     p_amount updates = None \<and> p_category updates = None \<and> p_date updates = None \<and>
     p_notes updates = None \<and> p_receipt_url updates = None"

definition updateExpense ::
  "string \<Rightarrow> partial_form_data \<Rightarrow> string \<Rightarrow> string \<Rightarrow> database
     \<Rightarrow> local_expense result \<times> database" where
  "updateExpense i updates now qnow db =
     (if no_fields updates then (Result None (Some ''No fields to update''), db)
      else
        let db1 = db\<lparr>expenses :=
                       map (\<lambda>r. if id_e r = i then apply_updates updates now r else r)
                         (expenses db)\<rparr>;
            db2 = addToSyncQueue i Update (Some (UpdateData updates)) qnow db1
        in (Result (select_expense i db2) None, db2))"

text \<open>
  \<open>addToSyncQueue\<close> wraps its statements in \<^verbatim>\<open>try\<close>/\<^verbatim>\<open>catch\<close>: when one of them throws
  (the disk is full, the database is locked), the \<^verbatim>\<open>catch\<close> logs the error and the
  function returns normally, with the queue as it was. The caller cannot tell that run
  from the one above, in which no statement throws.
\<close>

definition addToSyncQueue_caught ::
  "bool \<Rightarrow> string \<Rightarrow> operation \<Rightarrow> payload option \<Rightarrow> string \<Rightarrow> database \<Rightarrow> database" where
  "addToSyncQueue_caught throws expenseId op dat now db =
     (if throws then db else addToSyncQueue expenseId op dat now db)"

definition delete_expense_row :: "string \<Rightarrow> database \<Rightarrow> database" where
  "delete_expense_row i db = db\<lparr>expenses := filter (\<lambda>r. id_e r \<noteq> i) (expenses db)\<rparr>"

text \<open>
  \<open>deleteExpense\<close> calls \<open>addToSyncQueue\<close> and then runs the DELETE. \<open>enqueue_throws\<close>
  says whether a statement inside \<open>addToSyncQueue\<close> throws; \<open>delete_throws\<close> is the message
  of the exception of the DELETE when it throws, which the \<^verbatim>\<open>catch\<close> of \<open>deleteExpense\<close>
  returns as the error, the row staying in place.
\<close>

definition deleteExpense ::
  "bool \<Rightarrow> string option \<Rightarrow> string \<Rightarrow> string \<Rightarrow> database \<Rightarrow> string option \<times> database" where
  "deleteExpense enqueue_throws delete_throws i qnow db =
     (let db1 = addToSyncQueue_caught enqueue_throws i Delete None qnow db
      in case delete_throws of
           Some message \<Rightarrow> (Some message, db1)
         | None \<Rightarrow> (None, delete_expense_row i db1))"

text \<open>
  \<open>upsertExpenseFromRemote\<close>: the UPDATE branch leaves \<open>sync_error\<close> as it was, the
  INSERT branch leaves it NULL. The queue is not touched.
\<close>

definition upsertExpenseFromRemote ::
  "expense \<Rightarrow> string \<Rightarrow> database \<Rightarrow> local_expense result \<times> database" where
  "upsertExpenseFromRemote e now db =
     (let localExpense = expense.extend e
            \<lparr>synced = 1, sync_error = None, last_sync_at = Some now\<rparr>;
          written = (\<lambda>err. localExpense\<lparr>notes_e := or_null (notes_e e),
                        receipt_url := or_null (receipt_url e), sync_error := err\<rparr>)
      in case select_expense (id_e e) db of
           Some existing \<Rightarrow>
             (Result (Some localExpense) None,
              db\<lparr>expenses := map (\<lambda>r. if id_e r = id_e e then written (sync_error r) else r)
                                (expenses db)\<rparr>)
         | None \<Rightarrow>
             (Result (Some localExpense) None,
              db\<lparr>expenses := expenses db @ [written None]\<rparr>))"

definition markExpenseAsSynced :: "string \<Rightarrow> string \<Rightarrow> database \<Rightarrow> database" where
  "markExpenseAsSynced i now db =
     db\<lparr>expenses := map (\<lambda>r. if id_e r = i
                              then r\<lparr>synced := 1, last_sync_at := Some now, sync_error := None\<rparr>
                              else r) (expenses db)\<rparr>"

definition markExpenseSyncFailed :: "string \<Rightarrow> string \<Rightarrow> database \<Rightarrow> database" where
  "markExpenseSyncFailed i err db =
     db\<lparr>expenses := map (\<lambda>r. if id_e r = i then r\<lparr>sync_error := Some err\<rparr> else r)
                       (expenses db)\<rparr>"

text \<open>
  \<open>getSyncQueue\<close>: \<^verbatim>\<open>SELECT * FROM sync_queue ORDER BY created_at ASC\<close>. Rows with equal
  \<open>created_at\<close> are taken in rowid order (the sort is stable).
\<close>

definition getSyncQueue :: "database \<Rightarrow> queue_item list" where
  "getSyncQueue db = sort_key created_at_q (sync_queue db)"

definition removeFromSyncQueue :: "nat \<Rightarrow> database \<Rightarrow> database" where
  "removeFromSyncQueue queueId db =
     db\<lparr>sync_queue := filter (\<lambda>q. id_q q \<noteq> queueId) (sync_queue db)\<rparr>"

definition incrementSyncRetryCount :: "nat \<Rightarrow> database \<Rightarrow> database" where
  "incrementSyncRetryCount queueId db =
     db\<lparr>sync_queue := map (\<lambda>q. if id_q q = queueId then q\<lparr>retry_count := retry_count q + 1\<rparr>
                                else q) (sync_queue db)\<rparr>"

text \<open>
  \<open>removeDuplicateSyncQueueEntries\<close>: the GROUP BY query finds the pairs
  \<open>(expense_id, operation)\<close> that occur more than once; for each, the rows are read in
  \<open>id\<close> order and all but the first are deleted one by one. The count of deleted rows
  is returned.
\<close>

definition queue_key :: "queue_item \<Rightarrow> string \<times> operation" where
  "queue_key q = (expense_id q, operation_q q)"

definition duplicate_keys :: "queue_item list \<Rightarrow> (string \<times> operation) list" where
  "duplicate_keys qs =
     remdups (map queue_key
       (filter (\<lambda>q. length (filter (\<lambda>q'. queue_key q' = queue_key q) qs) > 1) qs))"

definition remove_duplicates_of :: "string \<times> operation \<Rightarrow> nat \<times> database \<Rightarrow> nat \<times> database" where
  "remove_duplicates_of dup s =
     (let totalRemoved = fst s; db = snd s;
          entries = sort (map id_q (filter (\<lambda>q. queue_key q = dup) (sync_queue db)))
      in if length entries > 1
         then (let idsToDelete = tl entries
               in (totalRemoved + length idsToDelete, fold removeFromSyncQueue idsToDelete db))
         else (totalRemoved, db))"

definition removeDuplicateSyncQueueEntries :: "database \<Rightarrow> nat \<times> database" where
  "removeDuplicateSyncQueueEntries db =
     fold remove_duplicates_of (duplicate_keys (sync_queue db)) (0, db)"

definition clearSyncQueue :: "database \<Rightarrow> database" where
  "clearSyncQueue db = db\<lparr>sync_queue := []\<rparr>"

definition clearFailedSyncItems :: "nat \<Rightarrow> database \<Rightarrow> nat \<times> database" where
  "clearFailedSyncItems maxRetries db =
     (length (filter (\<lambda>q. retry_count q \<ge> maxRetries) (sync_queue db)),
      db\<lparr>sync_queue := filter (\<lambda>q. \<not> retry_count q \<ge> maxRetries) (sync_queue db)\<rparr>)"

definition deleteAllUserExpenses :: "string \<Rightarrow> database \<Rightarrow> string option \<times> database" where
  "deleteAllUserExpenses userId db =
     (None, db\<lparr>expenses := filter (\<lambda>r. user_id r \<noteq> userId) (expenses db)\<rparr>)"

section \<open>Remote adapter (lib/expenses-supabase.ts)\<close>

text \<open>
  The Supabase client, the network probe and the clock are outside the repository. They
  are the fields of an environment over a world state \<open>'w\<close> that every call may change.
  Of the client's answer \<open>{ data, error }\<close> to a write only \<open>error\<close> is kept (the sync
  service reads nothing else); \<open>None\<close> is \<^verbatim>\<open>null\<close>. Of an error object the model keeps
  \<open>code\<close> and \<open>message\<close>, whether it is an instance of \<^verbatim>\<open>Error\<close>, and the text that
  \<^verbatim>\<open>JSON.stringify\<close> gives for it.
\<close>

record remote_error =
  err_code :: "string option"
  err_message :: "string option"
  instanceof_Error :: bool
  json_text :: string

record insert_data =
  i_amount :: real
  i_category :: string
  i_date :: string
  i_notes :: "string option"
  i_receipt_url :: "string option"
  i_user_id :: string
  i_id :: "string option"

record update_data =
  u_updated_at :: string
  u_amount :: "real option"
  u_category :: "string option"
  u_date :: "string option"
  u_notes :: "string option option"
  u_receipt_url :: "string option option"

record 'w environment =
  netinfo_fetch :: "'w \<Rightarrow> (bool option \<times> bool option) \<times> 'w"
  clock :: "'w \<Rightarrow> string \<times> 'w"
  sb_insert :: "insert_data \<Rightarrow> 'w \<Rightarrow> remote_error option \<times> 'w"
  sb_update :: "string \<Rightarrow> update_data \<Rightarrow> 'w \<Rightarrow> remote_error option \<times> 'w"
  sb_delete :: "string \<Rightarrow> 'w \<Rightarrow> remote_error option \<times> 'w"
  sb_select :: "string \<Rightarrow> 'w \<Rightarrow> (expense list option \<times> remote_error option) \<times> 'w"

definition supabase_getExpenses ::
  "'w environment \<Rightarrow> string \<Rightarrow> 'w \<Rightarrow> (expense list option \<times> remote_error option) \<times> 'w" where
  "supabase_getExpenses env userId w = sb_select env userId w"

definition supabase_addExpense ::
  "'w environment \<Rightarrow> expense_form_data \<Rightarrow> string \<Rightarrow> string option \<Rightarrow> 'w
     \<Rightarrow> remote_error option \<times> 'w" where
  "supabase_addExpense env expense userId i w =
     sb_insert env
       \<lparr>i_amount = f_amount expense, i_category = f_category expense, i_date = f_date expense,
        i_notes = or_null (Some (f_notes expense)),
        i_receipt_url = or_null (f_receipt_url expense),
        i_user_id = userId, i_id = or_null i\<rparr> w"

definition supabase_updateExpense ::
  "'w environment \<Rightarrow> string \<Rightarrow> partial_form_data \<Rightarrow> 'w \<Rightarrow> remote_error option \<times> 'w" where
  "supabase_updateExpense env i updates w =
     (let (now, w1) = clock env w
      in sb_update env i
           \<lparr>u_updated_at = now, u_amount = p_amount updates, u_category = p_category updates,
            u_date = p_date updates,
            u_notes = map_option (\<lambda>n. or_null (Some n)) (p_notes updates),
            u_receipt_url = map_option or_null (p_receipt_url updates)\<rparr> w1)"

definition supabase_deleteExpense ::
  "'w environment \<Rightarrow> string \<Rightarrow> 'w \<Rightarrow> remote_error option \<times> 'w" where
  "supabase_deleteExpense env i w = sb_delete env i w"

section \<open>Sync service (lib/sync-service.ts)\<close>

record sync_result =
  success :: bool
  pushed :: nat
  pulled :: nat
  errors :: "string list"

definition isOnline :: "'w environment \<Rightarrow> 'w \<Rightarrow> bool \<times> 'w" where
  "isOnline env w =
     (let (state, w1) = netinfo_fetch env w
      in (fst state = Some True \<and> snd state = Some True, w1))"

definition MAX_RETRIES :: nat where
  "MAX_RETRIES = 3"

text \<open>\<^verbatim>\<open>String.prototype.includes\<close>.\<close>

fun str_includes :: "string \<Rightarrow> string \<Rightarrow> bool" where
  "str_includes [] sub = (sub = [])"
| "str_includes (c # s) sub = (take (length sub) (c # s) = sub \<or> str_includes s sub)"

definition operation_name :: "operation \<Rightarrow> string" where
  "operation_name op = (case op of Create \<Rightarrow> ''create'' | Update \<Rightarrow> ''update'' | Delete \<Rightarrow> ''delete'')"

text \<open>The \<open>errorMsg\<close> of the \<^verbatim>\<open>catch\<close> inside the push loop, for an error object thrown.\<close>

definition push_errorMsg :: "remote_error \<Rightarrow> string" where
  "push_errorMsg e =
     (if instanceof_Error e
      then (case err_message e of Some m \<Rightarrow> m | None \<Rightarrow> ''undefined'')
      else json_text e)"

definition isDuplicate :: "remote_error \<Rightarrow> bool" where
  "isDuplicate e \<longleftrightarrow>
     err_code e = Some ''23505'' \<or>
     (case err_message e of None \<Rightarrow> False | Some m \<Rightarrow> str_includes m ''duplicate key'') \<or>
     (case err_message e of None \<Rightarrow> False | Some m \<Rightarrow> str_includes m ''unique constraint'')"

text \<open>
  The state of the push loop: the database, the world, \<open>successCount\<close> and \<open>errors\<close>.
\<close>

type_synonym 'w push_state = "database \<times> 'w \<times> nat \<times> string list"

text \<open>The \<^verbatim>\<open>catch\<close> of the loop body.\<close>

definition push_failed :: "queue_item \<Rightarrow> remote_error \<Rightarrow> 'w push_state \<Rightarrow> 'w push_state" where
  "push_failed item e s =
     (case s of (db, w, successCount, errs) \<Rightarrow>
        (markExpenseSyncFailed (expense_id item) (push_errorMsg e)
           (incrementSyncRetryCount (id_q item) db),
         w, successCount,
         errs @ [operation_name (operation_q item) @ '' '' @ expense_id item @ '': '' @
                 push_errorMsg e]))"

text \<open>The end of the create/update case: mark as synced, remove the entry, count it.\<close>

definition push_synced :: "'w environment \<Rightarrow> queue_item \<Rightarrow> 'w push_state \<Rightarrow> 'w push_state" where
  "push_synced env item s =
     (case s of (db, w, successCount, errs) \<Rightarrow>
        (let (now, w1) = clock env w
         in (removeFromSyncQueue (id_q item) (markExpenseAsSynced (expense_id item) now db),
             w1, successCount + 1, errs)))"

text \<open>
  The \<open>expenseData\<close> the push phase builds from the local row; \<open>notes\<close> is
  \<^verbatim>\<open>localExpense.notes || ""\<close>. The same object is the form data of the remote insert and
  the partial form data of the remote update, where every field is provided. The amount
  goes through \<^verbatim>\<open>toString\<close> and \<^verbatim>\<open>parseFloat\<close> and the date through \<^verbatim>\<open>new Date\<close> and
  \<^verbatim>\<open>toISOString\<close>; both round trips are taken as the identity (the stored dates are
  valid timestamps).
\<close>

definition expenseData_form :: "local_expense \<Rightarrow> expense_form_data" where
  "expenseData_form localExpense =
     \<lparr>f_amount = amount localExpense, f_category = category localExpense,
      f_date = date_e localExpense,
      f_notes = (case or_null (notes_e localExpense) of None \<Rightarrow> [] | Some n \<Rightarrow> n),
      f_receipt_url = receipt_url localExpense\<rparr>"

definition expenseData_partial :: "local_expense \<Rightarrow> partial_form_data" where
  "expenseData_partial localExpense =
     \<lparr>p_amount = Some (amount localExpense), p_category = Some (category localExpense),
      p_date = Some (date_e localExpense),
      p_notes = Some (case or_null (notes_e localExpense) of None \<Rightarrow> [] | Some n \<Rightarrow> n),
      p_receipt_url = Some (receipt_url localExpense)\<rparr>"

text \<open>
  One iteration of the loop of \<open>pushToRemote\<close>. An entry at the retry limit is skipped.
  A create or update entry whose row is gone is removed before any remote call.
\<close>

definition push_item :: "'w environment \<Rightarrow> string \<Rightarrow> 'w push_state \<Rightarrow> queue_item \<Rightarrow> 'w push_state" where
  "push_item env userId s item =
     (case s of (db, w, successCount, errs) \<Rightarrow>
        if retry_count item \<ge> MAX_RETRIES then s
        else if operation_q item = Delete then
          (let (error, w1) = supabase_deleteExpense env (expense_id item) w
           in case error of
                Some e \<Rightarrow>
                  (let errorMsg = (case or_null (err_message e) of None \<Rightarrow> [] | Some m \<Rightarrow> m);
                       isNotFound = (str_includes errorMsg ''not found'' \<or>
                                     str_includes errorMsg ''No rows'');
                       isInvalidUUID = str_includes errorMsg ''invalid input syntax for type uuid''
                   in if \<not> isNotFound \<and> \<not> isInvalidUUID
                      then push_failed item e (db, w1, successCount, errs)
                      else (removeFromSyncQueue (id_q item) db, w1, successCount + 1, errs))
              | None \<Rightarrow> (removeFromSyncQueue (id_q item) db, w1, successCount + 1, errs))
        else
          (case data_r (getExpenseById (expense_id item) db) of
             None \<Rightarrow> (removeFromSyncQueue (id_q item) db, w, successCount, errs)
           | Some localExpense \<Rightarrow>
               if operation_q item = Create then
                 (let (error, w1) = supabase_addExpense env (expenseData_form localExpense)
                                      userId (Some (expense_id item)) w
                  in case error of
                       Some e \<Rightarrow>
                         if isDuplicate e
                         then push_synced env item (db, w1, successCount, errs)
                         else push_failed item e (db, w1, successCount, errs)
                     | None \<Rightarrow> push_synced env item (db, w1, successCount, errs))
               else
                 (let (updateError, w1) = supabase_updateExpense env (expense_id item)
                                            (expenseData_partial localExpense) w
                  in case updateError of
                       Some ue \<Rightarrow>
                         (let (createError, w2) =
                                supabase_addExpense env (expenseData_form localExpense)
                                  userId (Some (expense_id item)) w1
                          in case createError of
                               Some ce \<Rightarrow> push_failed item ce (db, w2, successCount, errs)
                             | None \<Rightarrow> push_synced env item (db, w2, successCount, errs))
                     | None \<Rightarrow> push_synced env item (db, w1, successCount, errs))))"

text \<open>
  \<open>pushToRemote\<close>: the duplicates are removed, the queue is read once, and the loop
  runs over that snapshot. The store's functions catch their own exceptions, so the
  outer \<^verbatim>\<open>catch\<close> is never entered.
\<close>

definition pushToRemote ::
  "'w environment \<Rightarrow> string \<Rightarrow> database \<times> 'w \<Rightarrow> (nat \<times> string list) \<times> database \<times> 'w" where
  "pushToRemote env userId s =
     (let db1 = snd (removeDuplicateSyncQueueEntries (fst s));
          queue = getSyncQueue db1
      in case foldl (push_item env userId) (db1, snd s, 0, []) queue of
           (db2, w2, successCount, errs) \<Rightarrow> ((successCount, errs), db2, w2))"

text \<open>The \<open>errorMsg\<close> of the \<^verbatim>\<open>catch\<close> of \<open>pullFromRemote\<close>.\<close>

definition pull_errorMsg :: "remote_error \<Rightarrow> string" where
  "pull_errorMsg e =
     (if instanceof_Error e
      then (case err_message e of Some m \<Rightarrow> m | None \<Rightarrow> ''undefined'')
      else ''Unknown error'')"

definition pull_item :: "'w environment \<Rightarrow> 'w push_state \<Rightarrow> expense \<Rightarrow> 'w push_state" where
  "pull_item env s remoteExpense =
     (case s of (db, w, successCount, errs) \<Rightarrow>
        (let (now, w1) = clock env w
         in (snd (upsertExpenseFromRemote remoteExpense now db), w1, successCount + 1, errs)))"

definition pullFromRemote ::
  "'w environment \<Rightarrow> string \<Rightarrow> database \<times> 'w \<Rightarrow> (nat \<times> string list) \<times> database \<times> 'w" where
  "pullFromRemote env userId s =
     (let (answer, w1) = supabase_getExpenses env userId (snd s)
      in case snd answer of
           Some e \<Rightarrow> ((0, [''Pull failed: '' @ pull_errorMsg e]), fst s, w1)
         | None \<Rightarrow>
             (case fst answer of
                None \<Rightarrow> ((0, []), fst s, w1)
              | Some remoteExpenses \<Rightarrow>
                  if remoteExpenses = [] then ((0, []), fst s, w1)
                  else (case foldl (pull_item env) (fst s, w1, 0, []) remoteExpenses of
                          (db2, w2, successCount, errs) \<Rightarrow> ((successCount, errs), db2, w2))))"

definition syncExpenses ::
  "'w environment \<Rightarrow> string \<Rightarrow> database \<times> 'w \<Rightarrow> sync_result \<times> database \<times> 'w" where
  "syncExpenses env userId s =
     (let (online, w1) = isOnline env (snd s)
      in if \<not> online
         then (\<lparr>success = False, pushed = 0, pulled = 0, errors = [''Device is offline'']\<rparr>,
               fst s, w1)
         else
           (case pushToRemote env userId (fst s, w1) of
              (pushResult, db1, w2) \<Rightarrow>
                (case pullFromRemote env userId (db1, w2) of
                   (pullResult, db2, w3) \<Rightarrow>
                     (let allErrors = snd pushResult @ snd pullResult
                      in (\<lparr>success = (allErrors = []), pushed = fst pushResult,
                           pulled = fst pullResult, errors = allErrors\<rparr>, db2, w3)))))"


section \<open>Predicates and concrete inputs of the properties\<close>

text \<open>The queue holds an entry for the record \<open>i\<close> and the operation \<open>op\<close>.\<close>

definition queue_has :: "string \<Rightarrow> operation \<Rightarrow> database \<Rightarrow> bool" where
  "queue_has i op db = list_ex (\<lambda>q. expense_id q = i \<and> operation_q q = op) (sync_queue db)"

text \<open>
  A device whose network probe reports a connection without reachable internet; its
  remote store would accept everything.
\<close>

definition env_offline :: "unit environment" where
  "env_offline =
     \<lparr>netinfo_fetch = (\<lambda>w. ((Some True, Some False), w)),
      clock = (\<lambda>w. (''2024-01-03T00:00:00.000Z'', w)),
      sb_insert = (\<lambda>d w. (None, w)), sb_update = (\<lambda>i d w. (None, w)),
      sb_delete = (\<lambda>i w. (None, w)), sb_select = (\<lambda>u w. ((Some [], None), w))\<rparr>"

definition lunch_form :: expense_form_data where
  "lunch_form =
     \<lparr>f_amount = 12.5, f_category = ''Food'', f_date = ''2024-01-01T12:00:00.000Z'',
      f_notes = ''lunch'', f_receipt_url = None\<rparr>"

text \<open>The store after user \<open>u1\<close> added one expense, \<open>e1\<close>, to the empty store.\<close>

definition db_one :: database where
  "db_one = snd (addExpense lunch_form ''u1'' ''e1'' ''2024-01-01T12:00:01.000Z''
                   ''2024-01-01T12:00:01.002Z'' init_db)"

definition amount_only :: partial_form_data where
  "amount_only =
     \<lparr>p_amount = Some 20, p_category = None, p_date = None, p_notes = None,
      p_receipt_url = None\<rparr>"

definition lunch_row :: local_expense where
  "lunch_row =
     \<lparr>id_e = ''e1'', user_id = ''u1'', amount = 12.5, category = ''Food'',
      date_e = ''2024-01-01T12:00:00.000Z'', notes_e = Some ''lunch'', receipt_url = None,
      created_at = ''2024-01-01T12:00:01.000Z'', updated_at = ''2024-01-01T12:00:01.000Z'',
      synced = 0, sync_error = None, last_sync_at = None\<rparr>"

definition create_entry :: queue_item where
  "create_entry =
     \<lparr>id_q = 1, expense_id = ''e1'', operation_q = Create, data_q = Some (RowData lunch_row),
      created_at_q = ''2024-01-01T12:00:01.002Z'', retry_count = 0\<rparr>"

text \<open>A remote store that answers every insert with a uniqueness conflict.\<close>

definition duplicate_key_error :: remote_error where
  "duplicate_key_error =
     \<lparr>err_code = Some ''23505'',
      err_message = Some ''duplicate key value violates unique constraint'',
      instanceof_Error = False, json_text = ''{}''\<rparr>"

definition env_duplicate :: "unit environment" where
  "env_duplicate =
     \<lparr>netinfo_fetch = (\<lambda>w. ((Some True, Some True), w)),
      clock = (\<lambda>w. (''2024-01-03T00:00:00.000Z'', w)),
      sb_insert = (\<lambda>d w. (Some duplicate_key_error, w)),
      sb_update = (\<lambda>i d w. (None, w)),
      sb_delete = (\<lambda>i w. (None, w)), sb_select = (\<lambda>u w. ((Some [], None), w))\<rparr>"

text \<open>
  A store whose only queue entry, a create for \<open>e1\<close>, has failed three times, after which
  the row \<open>e1\<close> was deleted and the delete was pushed.
\<close>

definition stuck_entry :: queue_item where
  "stuck_entry =
     \<lparr>id_q = 1, expense_id = ''e1'', operation_q = Create, data_q = None,
      created_at_q = ''2024-01-01T12:00:01.002Z'', retry_count = 3\<rparr>"

definition db_stuck :: database where
  "db_stuck = \<lparr>expenses = [], sync_queue = [stuck_entry], queue_seq = 2\<rparr>"

text \<open>
  The local mutations the user interface issues, each with the identifier drawn and the
  clock readings of the call, in the runs in which no statement of the store throws.
\<close>

datatype local_op =
    Insert expense_form_data string string string string
  | Edit string partial_form_data string string
  | Remove string string

fun apply_local_op :: "local_op \<Rightarrow> database \<Rightarrow> database" where
  "apply_local_op (Insert expense userId uuid now qnow) db =
     snd (addExpense expense userId uuid now qnow db)"
| "apply_local_op (Edit i updates now qnow) db = snd (updateExpense i updates now qnow db)"
| "apply_local_op (Remove i qnow) db = snd (deleteExpense False None i qnow db)"

text \<open>An insert, two edits and two deletes of the same record, with no push in between.\<close>

definition rapid_edits :: "local_op list" where
  "rapid_edits =
     [Insert lunch_form ''u1'' ''e1'' ''2024-01-01T12:00:01.000Z'' ''2024-01-01T12:00:01.002Z'',
      Edit ''e1'' amount_only ''2024-01-01T12:05:00.000Z'' ''2024-01-01T12:05:00.001Z'',
      Edit ''e1'' amount_only ''2024-01-01T12:05:02.000Z'' ''2024-01-01T12:05:02.001Z'',
      Remove ''e1'' ''2024-01-01T12:06:00.000Z'',
      Remove ''e1'' ''2024-01-01T12:06:01.000Z'']"

text \<open>
  A queue whose first entry has failed three times and whose second entry was stamped by
  a clock that had been set back in between.
\<close>

definition db_backlog :: database where
  "db_backlog =
     \<lparr>expenses = [lunch_row],
      sync_queue =
        [\<lparr>id_q = 1, expense_id = ''e1'', operation_q = Create, data_q = Some (RowData lunch_row),
          created_at_q = ''2024-01-01T12:00:01.002Z'', retry_count = 3\<rparr>,
         \<lparr>id_q = 2, expense_id = ''e1'', operation_q = Update,
          data_q = Some (UpdateData amount_only),
          created_at_q = ''2024-01-01T11:30:00.000Z'', retry_count = 0\<rparr>],
      queue_seq = 2\<rparr>"
















section \<open>General lemmas\<close>

lemma find_SomeD: "find P xs = Some x \<Longrightarrow> x \<in> set xs \<and> P x"
  by (induction xs) (auto split: if_splits)

lemma find_map_update:
  "(\<And>r. key r = i \<Longrightarrow> key (f r) = i) \<Longrightarrow>
   find (\<lambda>r. key r = i) (map (\<lambda>r. if key r = i then f r else r) xs) =
     map_option f (find (\<lambda>r. key r = i) xs)"
  by (induction xs) auto

lemma find_append: "find P (xs @ ys) = (case find P xs of None \<Rightarrow> find P ys | Some x \<Rightarrow> Some x)"
  by (induction xs) auto

lemma db_one_eq: "db_one = \<lparr>expenses = [lunch_row], sync_queue = [create_entry], queue_seq = 1\<rparr>"
  by (simp add: db_one_def addExpense_def init_db_def select_expense_def addToSyncQueue_def
      Let_def lunch_form_def lunch_row_def create_entry_def or_null_def)

subsection \<open>The queue has no two entries with the same record and operation\<close>

lemma distinct_key_count:
  "distinct (map f xs) \<Longrightarrow> length (filter (\<lambda>x. f x = k) xs) \<le> 1"
proof (induction xs)
  case Nil
  then show ?case by simp
next
  case (Cons x xs)
  show ?case
  proof (cases "f x = k")
    case True
    with Cons.prems have "\<forall>y\<in>set xs. f y \<noteq> k"
      by (auto simp: image_iff)
    then have "filter (\<lambda>y. f y = k) xs = []"
      by (simp add: filter_empty_conv)
    with True show ?thesis by simp
  next
    case False
    with Cons show ?thesis by simp
  qed
qed

lemma addToSyncQueue_expenses [simp]:
  "expenses (addToSyncQueue i op dat now db) = expenses db"
  by (simp add: addToSyncQueue_def split: option.splits)

lemma addToSyncQueue_distinct_keys:
  "distinct (map queue_key (sync_queue db)) \<Longrightarrow>
   distinct (map queue_key (sync_queue (addToSyncQueue i op dat now db)))"
  by (auto simp: addToSyncQueue_def queue_key_def find_None_iff split: option.splits)

lemma addToSyncQueue_present:
  "queue_has i op db \<Longrightarrow> addToSyncQueue i op dat now db = db"
  by (auto simp: addToSyncQueue_def queue_has_def list_ex_iff find_None_iff split: option.splits)

lemma apply_local_op_distinct_keys:
  "distinct (map queue_key (sync_queue db)) \<Longrightarrow>
   distinct (map queue_key (sync_queue (apply_local_op x db)))"
  by (cases x)
    (simp_all add: addExpense_def updateExpense_def deleteExpense_def addToSyncQueue_caught_def
      delete_expense_row_def Let_def addToSyncQueue_distinct_keys)

lemma local_ops_distinct_keys:
  "distinct (map queue_key (sync_queue db)) \<Longrightarrow>
   distinct (map queue_key (sync_queue (fold apply_local_op ops db)))"
  by (induction ops arbitrary: db) (simp_all add: apply_local_op_distinct_keys)

lemma duplicate_keys_distinct:
  "distinct (map queue_key qs) \<Longrightarrow> duplicate_keys qs = []"
proof -
  assume d: "distinct (map queue_key qs)"
  have "\<And>q. length (filter (\<lambda>q'. queue_key q' = queue_key q) qs) \<le> 1"
    using d by (rule distinct_key_count)
  then have "filter (\<lambda>q. length (filter (\<lambda>q'. queue_key q' = queue_key q) qs) > 1) qs = []"
    by (simp add: filter_empty_conv not_less)
  then show ?thesis by (simp add: duplicate_keys_def)
qed

lemma removeDuplicates_distinct:
  "distinct (map queue_key (sync_queue db)) \<Longrightarrow> removeDuplicateSyncQueueEntries db = (0, db)"
  by (simp add: removeDuplicateSyncQueueEntries_def duplicate_keys_distinct)

subsection \<open>What one iteration of the push loop does to the queue\<close>

lemma push_item_skip:
  "retry_count item \<ge> MAX_RETRIES \<Longrightarrow> push_item env u s item = s"
  by (simp add: push_item_def split: prod.splits)

lemma push_item_queue_cases:
  "sync_queue (fst (push_item env u (db, w, n, errs) item)) = sync_queue db \<and>
     retry_count item \<ge> MAX_RETRIES \<or>
   sync_queue (fst (push_item env u (db, w, n, errs) item)) =
     filter (\<lambda>q. id_q q \<noteq> id_q item) (sync_queue db) \<or>
   sync_queue (fst (push_item env u (db, w, n, errs) item)) =
     map (\<lambda>q. if id_q q = id_q item then q\<lparr>retry_count := retry_count q + 1\<rparr> else q)
       (sync_queue db)"
  by (simp add: push_item_def push_failed_def push_synced_def removeFromSyncQueue_def
      markExpenseAsSynced_def markExpenseSyncFailed_def incrementSyncRetryCount_def Let_def
      split: prod.splits option.splits)

lemma push_item_keeps:
  assumes "q \<in> set (sync_queue (fst s))"
    and "id_q item = id_q q \<longrightarrow> retry_count item \<ge> MAX_RETRIES"
  shows "q \<in> set (sync_queue (fst (push_item env u s item)))"
proof (cases "retry_count item \<ge> MAX_RETRIES")
  case True
  then show ?thesis using assms(1) by (simp add: push_item_skip)
next
  case False
  with assms(2) have ne: "id_q q \<noteq> id_q item" by auto
  obtain db w n errs where s: "s = (db, w, n, errs)" by (cases s)
  from ne assms(1) s
  have "q \<in> set (filter (\<lambda>q. id_q q \<noteq> id_q item) (sync_queue db))" by simp
  moreover from ne assms(1) s
  have "q \<in> set (map (\<lambda>q. if id_q q = id_q item then q\<lparr>retry_count := retry_count q + 1\<rparr> else q)
                    (sync_queue db))"
    by (force simp: image_iff)
  ultimately show ?thesis
    using push_item_queue_cases [of env u db w n errs item] assms(1) s by auto
qed

lemma push_loop_keeps:
  "q \<in> set (sync_queue (fst s)) \<Longrightarrow>
   \<forall>item\<in>set items. id_q item = id_q q \<longrightarrow> retry_count item \<ge> MAX_RETRIES \<Longrightarrow>
   q \<in> set (sync_queue (fst (foldl (push_item env u) s items)))"
  by (induction items arbitrary: s) (simp_all add: push_item_keeps)

lemma pushToRemote_db:
  "fst (snd (pushToRemote env u (db, w))) =
     fst (foldl (push_item env u) (snd (removeDuplicateSyncQueueEntries db), w, 0, [])
            (getSyncQueue (snd (removeDuplicateSyncQueueEntries db))))"
  by (simp add: pushToRemote_def Let_def split: prod.splits)

subsection \<open>The removal of duplicates keeps the ids unique\<close>

lemma removeFromSyncQueue_distinct_ids:
  "distinct (map id_q (sync_queue db)) \<Longrightarrow>
   distinct (map id_q (sync_queue (removeFromSyncQueue i db)))"
  by (simp add: removeFromSyncQueue_def distinct_map_filter)

lemma fold_removeFromSyncQueue_distinct_ids:
  "distinct (map id_q (sync_queue db)) \<Longrightarrow>
   distinct (map id_q (sync_queue (fold removeFromSyncQueue ids db)))"
  by (induction ids arbitrary: db) (simp_all add: removeFromSyncQueue_distinct_ids)

lemma remove_duplicates_of_distinct_ids:
  "distinct (map id_q (sync_queue (snd s))) \<Longrightarrow>
   distinct (map id_q (sync_queue (snd (remove_duplicates_of k s))))"
  by (simp add: remove_duplicates_of_def Let_def fold_removeFromSyncQueue_distinct_ids)

lemma fold_remove_duplicates_of_distinct_ids:
  "distinct (map id_q (sync_queue (snd s))) \<Longrightarrow>
   distinct (map id_q (sync_queue (snd (fold remove_duplicates_of ks s))))"
  by (induction ks arbitrary: s) (simp_all add: remove_duplicates_of_distinct_ids)

lemma removeDuplicates_distinct_ids:
  "distinct (map id_q (sync_queue db)) \<Longrightarrow>
   distinct (map id_q (sync_queue (snd (removeDuplicateSyncQueueEntries db))))"
  by (simp add: removeDuplicateSyncQueueEntries_def fold_remove_duplicates_of_distinct_ids)

lemma push_loop_skips_exhausted:
  assumes ids: "distinct (map id_q (sync_queue db))"
    and q: "q \<in> set (sync_queue db)" and r: "retry_count q \<ge> MAX_RETRIES"
  shows "q \<in> set (sync_queue (fst (foldl (push_item env u) (db, w, n, errs) (getSyncQueue db))))"
proof -
  have "\<forall>item\<in>set (getSyncQueue db). id_q item = id_q q \<longrightarrow> retry_count item \<ge> MAX_RETRIES"
    using ids q r by (auto simp: getSyncQueue_def distinct_map inj_on_def)
  with q show ?thesis by (simp add: push_loop_keeps)
qed

subsection \<open>Local mutations keep the flag and the queue consistent\<close>










subsection \<open>A push that the remote store accepts empties the queue\<close>












subsection \<open>The pull phase does not touch the queue\<close>









section \<open>The sync cycle while offline\<close>

text \<open>
  C1 (as amended). For every owner, store and world in which the connectivity check
  reports offline, \<open>syncExpenses\<close> returns zero pushed and zero pulled and leaves the
  queue and the expense rows as they were; the result it returns has
  \<open>success = False\<close> and the one error text \<open>Device is offline\<close>.
\<close>

theorem syncExpenses_offline:
  "\<not> fst (isOnline env w) \<Longrightarrow>
   syncExpenses env userId (db, w) =
     (\<lparr>success = False, pushed = 0, pulled = 0, errors = [''Device is offline'']\<rparr>,
      db, snd (isOnline env w))"
  by (auto simp: syncExpenses_def Let_def split: prod.splits)

theorem syncExpenses_offline_witness:
  "\<not> fst (isOnline env_offline ()) \<and>
   syncExpenses env_offline ''u1'' (db_one, ()) =
     (\<lparr>success = False, pushed = 0, pulled = 0, errors = [''Device is offline'']\<rparr>,
      db_one, ())"
proof -
  have h: "\<not> fst (isOnline env_offline ())"
    by (simp add: isOnline_def env_offline_def)
  show ?thesis using h syncExpenses_offline [OF h, of "''u1''" db_one] by simp
qed

text \<open>
  C1 as stated fails: the offline outcome is not a non-error result. At the store
  \<open>db_one\<close> the result is not both successful and free of errors.
\<close>

theorem syncExpenses_offline_is_error:
  "\<not> (pushed (fst (syncExpenses env_offline ''u1'' (db_one, ()))) = 0 \<and>
      pulled (fst (syncExpenses env_offline ''u1'' (db_one, ()))) = 0 \<and>
      fst (snd (syncExpenses env_offline ''u1'' (db_one, ()))) = db_one \<and>
      success (fst (syncExpenses env_offline ''u1'' (db_one, ()))) \<and>
      errors (fst (syncExpenses env_offline ''u1'' (db_one, ()))) = [])"
  by (simp add: syncExpenses_def isOnline_def env_offline_def)

section \<open>Updating an unknown id\<close>

text \<open>
  C2 (as amended). For every id that has no row in the local expenses table,
  \<open>updateExpense\<close> with a non-empty partial update changes no expense row, returns
  neither data nor an error, and enqueues an update entry for that id (unless the queue
  holds one already), so that afterwards the queue has an update entry for the id.
\<close>

theorem updateExpense_unknown_id:
  "select_expense i db = None \<Longrightarrow> \<not> no_fields updates \<Longrightarrow>
   updateExpense i updates now qnow db =
     (Result None None, addToSyncQueue i Update (Some (UpdateData updates)) qnow db) \<and>
   expenses (snd (updateExpense i updates now qnow db)) = expenses db \<and>
   queue_has i Update (snd (updateExpense i updates now qnow db))"
  by (auto simp: updateExpense_def Let_def select_expense_def addToSyncQueue_def queue_has_def
      find_None_iff list_ex_iff map_idI split: option.splits dest: find_SomeD)

theorem updateExpense_unknown_id_witness:
  "select_expense ''e2'' db_one = None \<and> \<not> no_fields amount_only \<and>
   updateExpense ''e2'' amount_only ''2024-01-02T08:00:00.000Z'' ''2024-01-02T08:00:00.001Z''
       db_one =
     (Result None None,
      addToSyncQueue ''e2'' Update (Some (UpdateData amount_only))
        ''2024-01-02T08:00:00.001Z'' db_one)"
proof -
  have h1: "select_expense ''e2'' db_one = None"
    by (simp add: db_one_def addExpense_def init_db_def select_expense_def addToSyncQueue_def
        Let_def)
  have h2: "\<not> no_fields amount_only"
    by (simp add: no_fields_def amount_only_def)
  show ?thesis using h1 h2 updateExpense_unknown_id [OF h1 h2] by simp
qed

text \<open>
  C2 as stated fails: at the unknown id \<open>e2\<close> the call reports no error, and the queue,
  which had no update entry for \<open>e2\<close>, has one afterwards.
\<close>

theorem updateExpense_unknown_id_no_error:
  "select_expense ''e2'' db_one = None \<and> \<not> no_fields amount_only \<and>
   error_r (fst (updateExpense ''e2'' amount_only ''2024-01-02T08:00:00.000Z''
                   ''2024-01-02T08:00:00.001Z'' db_one)) = None \<and>
   \<not> queue_has ''e2'' Update db_one \<and>
   queue_has ''e2'' Update
     (snd (updateExpense ''e2'' amount_only ''2024-01-02T08:00:00.000Z''
             ''2024-01-02T08:00:00.001Z'' db_one))"
  by (simp add: updateExpense_def db_one_def addExpense_def init_db_def select_expense_def
      addToSyncQueue_def no_fields_def amount_only_def queue_has_def lunch_form_def or_null_def
      Let_def)

section \<open>Writes that come from the remote store\<close>

text \<open>
  C4. For every remote record and every local store, \<open>upsertExpenseFromRemote\<close> leaves
  the sync queue (and its sequence counter) exactly as it was, and afterwards the row of the
  record's id carries the record's fields with \<open>synced = 1\<close> and \<open>last_sync_at\<close> stamped
  with the clock. Hence no queue entry for the record exists afterwards that did not exist
  before.
\<close>

theorem upsertExpenseFromRemote_marks_synced_queue_untouched:
  "sync_queue (snd (upsertExpenseFromRemote e now db)) = sync_queue db \<and>
   queue_seq (snd (upsertExpenseFromRemote e now db)) = queue_seq db \<and>
   (case select_expense (id_e e) (snd (upsertExpenseFromRemote e now db)) of
      None \<Rightarrow> False
    | Some r \<Rightarrow>
        synced r = 1 \<and> last_sync_at r = Some now \<and>
        id_e r = id_e e \<and> user_id r = user_id e \<and> amount r = amount e \<and>
        category r = category e \<and> date_e r = date_e e \<and>
        notes_e r = or_null (notes_e e) \<and> receipt_url r = or_null (receipt_url e) \<and>
        created_at r = created_at e \<and> updated_at r = updated_at e)"
proof (cases "select_expense (id_e e) db")
  case None
  then show ?thesis
    by (simp add: upsertExpenseFromRemote_def Let_def select_expense_def find_append
        expense.defs local_expense.defs)
next
  case (Some existing)
  then show ?thesis
    by (simp add: upsertExpenseFromRemote_def Let_def select_expense_def find_map_update
        expense.defs local_expense.defs)
qed

section \<open>Deleting a record\<close>

text \<open>
  C6. The claim: \<open>deleteExpense\<close> has the delete entry in the queue before the row is
  removed, so the row is never gone while the queue holds no delete entry for it. The
  code breaks it when the enqueue fails: \<open>addToSyncQueue\<close> swallows the exception, and
  \<open>deleteExpense\<close> goes on to delete the row and reports no error. On the store \<open>db_one\<close>,
  whose queue has no delete entry for \<open>e1\<close>, that run removes the row \<open>e1\<close>, leaves the
  queue as it was, without a delete entry, and returns no error. When the enqueue does not
  throw, the delete entry is in the queue whether or not the DELETE then succeeds.
\<close>

theorem deleteExpense_swallowed_enqueue_failure:
  "\<not> queue_has ''e1'' Delete db_one \<and>
   select_expense ''e1'' db_one = Some lunch_row \<and>
   fst (deleteExpense True None ''e1'' ''2024-01-02T09:00:00.000Z'' db_one) = None \<and>
   select_expense ''e1''
     (snd (deleteExpense True None ''e1'' ''2024-01-02T09:00:00.000Z'' db_one)) = None \<and>
   sync_queue (snd (deleteExpense True None ''e1'' ''2024-01-02T09:00:00.000Z'' db_one)) =
     sync_queue db_one \<and>
   \<not> queue_has ''e1'' Delete
       (snd (deleteExpense True None ''e1'' ''2024-01-02T09:00:00.000Z'' db_one)) \<and>
   queue_has i Delete (snd (deleteExpense False delete_throws i qnow db))"
proof -
  have general: "queue_has i Delete (snd (deleteExpense False delete_throws i qnow db))"
    by (auto simp: deleteExpense_def addToSyncQueue_caught_def delete_expense_row_def
        addToSyncQueue_def queue_has_def list_ex_iff find_None_iff Let_def
        split: option.splits dest: find_SomeD)
  have at_db_one:
    "\<not> queue_has ''e1'' Delete db_one \<and>
     select_expense ''e1'' db_one = Some lunch_row \<and>
     deleteExpense True None ''e1'' ''2024-01-02T09:00:00.000Z'' db_one =
       (None, \<lparr>expenses = [], sync_queue = [create_entry], queue_seq = 1\<rparr>)"
    by (simp add: db_one_eq deleteExpense_def addToSyncQueue_caught_def delete_expense_row_def
        queue_has_def select_expense_def create_entry_def lunch_row_def)
  from at_db_one general show ?thesis
    by (simp add: db_one_eq queue_has_def select_expense_def create_entry_def)
qed

section \<open>The bulk purge of an owner\<close>

text \<open>
  C9 (as amended). For every owner, \<open>deleteAllUserExpenses\<close> removes every expense row of
  that owner and no other row, reports no error, and leaves the sync queue unchanged (the
  queue has no owner column; entries that reference the owner's records stay).
\<close>

theorem deleteAllUserExpenses_rows_only:
  "fst (deleteAllUserExpenses userId db) = None \<and>
   expenses (snd (deleteAllUserExpenses userId db)) =
     filter (\<lambda>r. user_id r \<noteq> userId) (expenses db) \<and>
   list_all (\<lambda>r. user_id r \<noteq> userId) (expenses (snd (deleteAllUserExpenses userId db))) \<and>
   sync_queue (snd (deleteAllUserExpenses userId db)) = sync_queue db \<and>
   queue_seq (snd (deleteAllUserExpenses userId db)) = queue_seq db"
  by (simp add: deleteAllUserExpenses_def list_all_iff)

text \<open>
  C9 as stated fails: after the purge of owner \<open>u1\<close>, whose record \<open>e1\<close> is gone, the
  create entry that references \<open>e1\<close> is still in the queue.
\<close>

theorem deleteAllUserExpenses_leaves_queue_entry:
  "map_option user_id (select_expense ''e1'' db_one) = Some ''u1'' \<and>
   select_expense ''e1'' (snd (deleteAllUserExpenses ''u1'' db_one)) = None \<and>
   queue_has ''e1'' Create (snd (deleteAllUserExpenses ''u1'' db_one))"
  by (simp add: deleteAllUserExpenses_def db_one_def addExpense_def init_db_def
      select_expense_def addToSyncQueue_def queue_has_def Let_def)

section \<open>The push phase, entry by entry\<close>

text \<open>
  C7. For every create entry that the push loop sends to the remote store (it is below the
  retry limit and its row exists locally): if the remote insert answers with an error that
  is a uniqueness conflict (code 23505, or a message that includes \<open>duplicate key\<close> or
  \<open>unique constraint\<close>), the iteration marks the record as synced, removes the entry,
  adds one to the success count and leaves the error list as it was; every other queue
  entry is left unchanged, so no retry count is incremented.
\<close>

theorem push_create_duplicate_is_success:
  assumes "retry_count item < MAX_RETRIES"
    and "operation_q item = Create"
    and "select_expense (expense_id item) db = Some localExpense"
    and "supabase_addExpense env (expenseData_form localExpense) userId
           (Some (expense_id item)) w = (Some e, w1)"
    and "isDuplicate e"
  shows "push_item env userId (db, w, successCount, errs) item =
           (removeFromSyncQueue (id_q item)
              (markExpenseAsSynced (expense_id item) (fst (clock env w1)) db),
            snd (clock env w1), successCount + 1, errs) \<and>
         sync_queue (fst (push_item env userId (db, w, successCount, errs) item)) =
           filter (\<lambda>q. id_q q \<noteq> id_q item) (sync_queue db) \<and>
         map_option synced
           (select_expense (expense_id item)
              (fst (push_item env userId (db, w, successCount, errs) item))) = Some 1"
  using assms
  by (simp add: push_item_def push_synced_def getExpenseById_def removeFromSyncQueue_def
      markExpenseAsSynced_def select_expense_def find_map_update split: prod.splits)

theorem push_create_duplicate_is_success_witness:
  "retry_count create_entry < MAX_RETRIES \<and> operation_q create_entry = Create \<and>
   select_expense (expense_id create_entry) db_one = Some lunch_row \<and>
   supabase_addExpense env_duplicate (expenseData_form lunch_row) ''u1''
     (Some (expense_id create_entry)) () = (Some duplicate_key_error, ()) \<and>
   isDuplicate duplicate_key_error \<and>
   push_item env_duplicate ''u1'' (db_one, (), 0, []) create_entry =
     (\<lparr>expenses = [lunch_row\<lparr>synced := 1, last_sync_at := Some ''2024-01-03T00:00:00.000Z''\<rparr>],
       sync_queue = [], queue_seq = 1\<rparr>, (), 1, [])"
proof -
  have h1: "retry_count create_entry < MAX_RETRIES"
    by (simp add: create_entry_def MAX_RETRIES_def)
  have h2: "operation_q create_entry = Create"
    by (simp add: create_entry_def)
  have h3: "select_expense (expense_id create_entry) db_one = Some lunch_row"
    by (simp add: db_one_eq select_expense_def create_entry_def lunch_row_def)
  have h4: "supabase_addExpense env_duplicate (expenseData_form lunch_row) ''u1''
              (Some (expense_id create_entry)) () = (Some duplicate_key_error, ())"
    by (simp add: supabase_addExpense_def env_duplicate_def)
  have h5: "isDuplicate duplicate_key_error"
    by (simp add: isDuplicate_def duplicate_key_error_def)
  have "push_item env_duplicate ''u1'' (db_one, (), 0, []) create_entry =
          (removeFromSyncQueue (id_q create_entry)
             (markExpenseAsSynced (expense_id create_entry) (fst (clock env_duplicate ())) db_one),
           snd (clock env_duplicate ()), 0 + 1, [])"
    using push_create_duplicate_is_success [OF h1 h2 h3 h4 h5, of 0 "[]"] by simp
  also have "\<dots> = (\<lparr>expenses = [lunch_row\<lparr>synced := 1,
                         last_sync_at := Some ''2024-01-03T00:00:00.000Z''\<rparr>],
                     sync_queue = [], queue_seq = 1\<rparr>, (), 1, [])"
    by (simp add: db_one_eq removeFromSyncQueue_def markExpenseAsSynced_def create_entry_def
        env_duplicate_def lunch_row_def)
  finally show ?thesis using h1 h2 h3 h4 h5 by simp
qed

text \<open>
  C10 (as amended). In the push loop, for every create or update entry below the retry
  limit whose \<open>expense_id\<close> has no row in the local expenses table, the iteration removes
  the entry from the queue and changes nothing else: the world is untouched (no remote call
  is made), the success count and the error list are as before, and no retry count is
  incremented.
\<close>

theorem push_missing_row_drops_entry:
  assumes "retry_count item < MAX_RETRIES"
    and "operation_q item = Create \<or> operation_q item = Update"
    and "select_expense (expense_id item) db = None"
  shows "push_item env userId (db, w, successCount, errs) item =
           (removeFromSyncQueue (id_q item) db, w, successCount, errs)"
  using assms by (auto simp: push_item_def getExpenseById_def)

theorem push_missing_row_drops_entry_witness:
  "retry_count create_entry < MAX_RETRIES \<and>
   (operation_q create_entry = Create \<or> operation_q create_entry = Update) \<and>
   select_expense (expense_id create_entry) (snd (deleteExpense False None ''e1'' ''2024-01-02T09:00:00.000Z'' db_one)) = None \<and>
   push_item env_duplicate ''u1''
     (snd (deleteExpense False None ''e1'' ''2024-01-02T09:00:00.000Z'' db_one), (), 0, []) create_entry =
     (removeFromSyncQueue 1 (snd (deleteExpense False None ''e1'' ''2024-01-02T09:00:00.000Z'' db_one)),
      (), 0, [])"
proof -
  have h1: "retry_count create_entry < MAX_RETRIES"
    by (simp add: create_entry_def MAX_RETRIES_def)
  have h2: "operation_q create_entry = Create \<or> operation_q create_entry = Update"
    by (simp add: create_entry_def)
  have h3: "select_expense (expense_id create_entry)
              (snd (deleteExpense False None ''e1'' ''2024-01-02T09:00:00.000Z'' db_one)) = None"
    by (simp add: db_one_eq select_expense_def create_entry_def lunch_row_def deleteExpense_def
        delete_expense_row_def addToSyncQueue_caught_def addToSyncQueue_def)
  have h4: "id_q create_entry = 1" by (simp add: create_entry_def)
  show ?thesis
    using h1 h2 h3 h4 push_missing_row_drops_entry [OF h1 h2 h3, of env_duplicate "''u1''" "()" 0 "[]"]
    by simp
qed

text \<open>
  C10 as stated fails for an entry at the retry limit: the create entry of \<open>db_stuck\<close>
  references the absent \<open>e1\<close>, and the push phase leaves the store, and so the entry, as
  it was.
\<close>

theorem push_skips_stuck_entry:
  "select_expense ''e1'' db_stuck = None \<and>
   sync_queue db_stuck = [stuck_entry] \<and> operation_q stuck_entry = Create \<and>
   fst (snd (pushToRemote env_duplicate ''u1'' (db_stuck, ()))) = db_stuck"
  by (simp add: pushToRemote_def removeDuplicateSyncQueueEntries_def duplicate_keys_def
      getSyncQueue_def db_stuck_def stuck_entry_def select_expense_def push_item_def
      MAX_RETRIES_def)

section \<open>Enqueueing\<close>

text \<open>
  C5. Starting from a queue with at most one entry per pair of record id and operation
  (the empty queue is one), after any sequence of \<open>addExpense\<close>, \<open>updateExpense\<close> and
  \<open>deleteExpense\<close> calls with no push in between, the queue holds at most one entry for
  every record id and operation; and an enqueue attempt for a pair that has an entry
  changes nothing: the existing entry stays and no entry is added.
\<close>

theorem enqueue_at_most_one_per_record_and_operation:
  assumes "distinct (map queue_key (sync_queue db))"
  shows "length (filter (\<lambda>q. expense_id q = i \<and> operation_q q = op)
                   (sync_queue (fold apply_local_op ops db))) \<le> 1 \<and>
         (queue_has i op (fold apply_local_op ops db) \<longrightarrow>
            addToSyncQueue i op dat now (fold apply_local_op ops db) =
              fold apply_local_op ops db)"
proof -
  have "distinct (map queue_key (sync_queue (fold apply_local_op ops db)))"
    using assms by (rule local_ops_distinct_keys)
  then have "length (filter (\<lambda>q. queue_key q = (i, op))
                       (sync_queue (fold apply_local_op ops db))) \<le> 1"
    by (rule distinct_key_count)
  then show ?thesis
    by (simp add: queue_key_def addToSyncQueue_present) 
qed


theorem enqueue_at_most_one_witness:
  "distinct (map queue_key (sync_queue init_db)) \<and>
   map (\<lambda>q. (id_q q, expense_id q, operation_q q)) (sync_queue (fold apply_local_op rapid_edits init_db)) =
     [(1, ''e1'', Create), (2, ''e1'', Update), (3, ''e1'', Delete)] \<and>
   length (filter (\<lambda>q. expense_id q = ''e1'' \<and> operation_q q = Update)
             (sync_queue (fold apply_local_op rapid_edits init_db))) \<le> 1 \<and>
   queue_has ''e1'' Update (fold apply_local_op rapid_edits init_db) \<and>
   addToSyncQueue ''e1'' Update None ''2024-01-01T12:07:00.000Z''
       (fold apply_local_op rapid_edits init_db) =
     fold apply_local_op rapid_edits init_db"
proof -
  have h: "distinct (map queue_key (sync_queue init_db))"
    by (simp add: init_db_def)
  have q: "map (\<lambda>q. (id_q q, expense_id q, operation_q q)) (sync_queue (fold apply_local_op rapid_edits init_db)) =
     [(1, ''e1'', Create), (2, ''e1'', Update), (3, ''e1'', Delete)]"
    by (simp add: rapid_edits_def init_db_def addExpense_def updateExpense_def deleteExpense_def
        addToSyncQueue_caught_def delete_expense_row_def addToSyncQueue_def select_expense_def
        Let_def no_fields_def amount_only_def)
  have e: "queue_has ''e1'' Update (fold apply_local_op rapid_edits init_db)"
    using q by (auto simp: queue_has_def list_ex_iff)
  show ?thesis
    using h q e enqueue_at_most_one_per_record_and_operation
      [OF h, of "''e1''" Update rapid_edits None "''2024-01-01T12:07:00.000Z''"]
    by simp
qed

section \<open>Reading the queue\<close>

text \<open>
  C3 (as amended). For every queue state, \<open>getSyncQueue\<close> returns every entry of the
  queue, those at or above the retry limit of 3 included, sorted by \<open>created_at\<close>
  ascending; when \<open>created_at\<close> does not decrease along the table this is the table's own
  order, that of the sequence ids. Entries at or above the limit are excluded by the push
  loop, not by the read: when the ids of the queue are unique (\<open>id\<close> is the primary key),
  such an entry is returned by \<open>getSyncQueue\<close>, skipped by the loop, and still in the
  queue, unchanged, when the loop has run over the entries read. \<open>pushToRemote\<close> runs
  \<open>removeDuplicateSyncQueueEntries\<close> before it reads the queue, so what it keeps (the ids
  being unique) are the entries at or above the limit that this removal leaves in the
  queue; the removal deletes nothing when no pair of record id and operation occurs twice.
\<close>

theorem getSyncQueue_all_entries_by_created_at:
  "mset (getSyncQueue db) = mset (sync_queue db) \<and>
   sorted (map created_at_q (getSyncQueue db)) \<and>
   (sorted (map created_at_q (sync_queue db)) \<longrightarrow> getSyncQueue db = sync_queue db) \<and>
   (distinct (map id_q (sync_queue db)) \<and> q \<in> set (sync_queue db) \<and>
    retry_count q \<ge> MAX_RETRIES \<longrightarrow>
    q \<in> set (getSyncQueue db) \<and>
    q \<in> set (sync_queue
              (fst (foldl (push_item env userId) (db, w, n, errs) (getSyncQueue db))))) \<and>
   (distinct (map id_q (sync_queue db)) \<and>
    q \<in> set (sync_queue (snd (removeDuplicateSyncQueueEntries db))) \<and>
    retry_count q \<ge> MAX_RETRIES \<longrightarrow>
    q \<in> set (sync_queue (fst (snd (pushToRemote env userId (db, w)))))) \<and>
   (distinct (map queue_key (sync_queue db)) \<longrightarrow>
    removeDuplicateSyncQueueEntries db = (0, db))"
proof -
  have a: "mset (getSyncQueue db) = mset (sync_queue db)"
    by (simp add: getSyncQueue_def)
  have b: "sorted (map created_at_q (getSyncQueue db))"
    by (simp add: getSyncQueue_def)
  have c: "sorted (map created_at_q (sync_queue db)) \<longrightarrow> getSyncQueue db = sync_queue db"
    by (simp add: getSyncQueue_def sort_key_id_if_sorted)
  have d: "distinct (map id_q (sync_queue db)) \<and> q \<in> set (sync_queue db) \<and>
           retry_count q \<ge> MAX_RETRIES \<longrightarrow>
           q \<in> set (getSyncQueue db) \<and>
           q \<in> set (sync_queue
                     (fst (foldl (push_item env userId) (db, w, n, errs) (getSyncQueue db))))"
    by (simp add: push_loop_skips_exhausted) (simp add: getSyncQueue_def)
  have e: "q \<in> set (sync_queue (fst (snd (pushToRemote env userId (db, w)))))"
    if "distinct (map id_q (sync_queue db))"
      and "q \<in> set (sync_queue (snd (removeDuplicateSyncQueueEntries db)))"
      and "retry_count q \<ge> MAX_RETRIES"
    using that
    by (simp add: pushToRemote_db push_loop_skips_exhausted removeDuplicates_distinct_ids)
  have f: "distinct (map queue_key (sync_queue db)) \<longrightarrow>
           removeDuplicateSyncQueueEntries db = (0, db)"
    by (simp add: removeDuplicates_distinct)
  from a b c d e f show ?thesis by blast
qed

theorem getSyncQueue_all_entries_witness:
  "sorted (map created_at_q (sync_queue db_stuck)) \<and> getSyncQueue db_stuck = [stuck_entry] \<and>
   distinct (map id_q (sync_queue db_stuck)) \<and> distinct (map queue_key (sync_queue db_stuck)) \<and>
   stuck_entry \<in> set (sync_queue db_stuck) \<and> retry_count stuck_entry \<ge> MAX_RETRIES \<and>
   removeDuplicateSyncQueueEntries db_stuck = (0, db_stuck) \<and>
   stuck_entry \<in> set (getSyncQueue db_stuck) \<and>
   stuck_entry \<in> set (sync_queue (fst (foldl (push_item env_duplicate ''u1'') (db_stuck, (), 0, [])
                                         (getSyncQueue db_stuck)))) \<and>
   stuck_entry \<in> set (sync_queue (fst (snd (pushToRemote env_duplicate ''u1'' (db_stuck, ())))))"
proof -
  have h1: "sorted (map created_at_q (sync_queue db_stuck))"
    by (simp add: db_stuck_def)
  have h2: "distinct (map id_q (sync_queue db_stuck)) \<and>
            distinct (map queue_key (sync_queue db_stuck)) \<and>
            stuck_entry \<in> set (sync_queue db_stuck) \<and> retry_count stuck_entry \<ge> MAX_RETRIES"
    by (simp add: db_stuck_def stuck_entry_def MAX_RETRIES_def)
  have h3: "sync_queue db_stuck = [stuck_entry]"
    by (simp add: db_stuck_def)
  note T = getSyncQueue_all_entries_by_created_at
      [of db_stuck stuck_entry env_duplicate "''u1''" "()" 0 "[]"]
  have t1: "removeDuplicateSyncQueueEntries db_stuck = (0, db_stuck)"
    using h2 T by blast
  have t2: "getSyncQueue db_stuck = sync_queue db_stuck"
    using h1 T by blast
  have t3: "stuck_entry \<in> set (getSyncQueue db_stuck) \<and>
            stuck_entry \<in> set (sync_queue (fst (foldl (push_item env_duplicate ''u1'')
                                                  (db_stuck, (), 0, []) (getSyncQueue db_stuck))))"
    using h2 T by blast
  have "stuck_entry \<in> set (sync_queue (snd (removeDuplicateSyncQueueEntries db_stuck)))"
    using h2 t1 by simp
  then have t4: "stuck_entry \<in> set (sync_queue (fst (snd (pushToRemote env_duplicate ''u1''
                                                             (db_stuck, ())))))"
    using h2 T by blast
  from h1 h2 h3 t1 t2 t3 t4 show ?thesis by metis
qed

text \<open>
  C3 as stated fails: on \<open>db_backlog\<close> the entries returned are not in \<open>id\<close> order, and
  not all of them are below the retry limit.
\<close>

theorem getSyncQueue_returns_exhausted_entry:
  "\<not> sorted (map id_q (getSyncQueue db_backlog)) \<and>
   \<not> list_all (\<lambda>q. retry_count q < MAX_RETRIES) (getSyncQueue db_backlog)"
  by (simp add: getSyncQueue_def db_backlog_def MAX_RETRIES_def)

section \<open>The synced flag and the queue\<close>




end
